theory Spec2Isabelle
  imports Main
begin

section \<open>Data model of functionsdk/client.py\<close>

text \<open>
  Exceptions of the Python program are values. \<open>ValueError\<close>, \<open>StopAsyncIteration\<close> and
  \<open>RuntimeError\<close> are the builtin exceptions the client meets; \<open>Fault\<close> stands for
  whatever a collaborator (the RPC channel, the remote service) raises on its own.
\<close>

datatype exn =
    ValueError string
  | StopAsyncIteration
  | RuntimeError string
  | Fault string

text \<open>The module constant \<open>DEFAULT_BASE_PATH\<close>.\<close>

definition DEFAULT_BASE_PATH :: string where
  "DEFAULT_BASE_PATH = ''https://api.function.network''"

text \<open>
  The dataclass \<open>ClientOptions\<close>. The field \<open>apiKey\<close> is annotated \<open>str\<close>, but the
  constructor of \<open>Client\<close> tests it against \<open>None\<close>, so the absent key is a value of the model.
\<close>

record ClientOptions =
  apiKey :: "string option"
  baseUrl :: string

text \<open>
  The generated message classes are not part of the sources; the client reads two attributes
  of a stream chunk, \<open>chunk.response.content\<close> and \<open>first.response.role\<close>.
\<close>

record ChatCompleteMessage =
  role :: string
  content :: string

record StreamChunk =
  response :: ChatCompleteMessage

section \<open>Asynchronous generators\<close>

text \<open>
  The generator handed out by the service stub: the chunks it still has to deliver and the
  way it ends, by completing (\<open>None\<close>) or by raising a fault of the transport.
\<close>

record BaseStream =
  pending :: "StreamChunk list"
  failure :: "exn option"

text \<open>
  \<open>__anext__\<close> on the stub's generator: the next chunk; at the end the fault, if there is
  one, and \<open>StopAsyncIteration\<close> from then on.
\<close>

definition base_anext :: "BaseStream \<Rightarrow> (exn + StreamChunk) \<times> BaseStream" where
  "base_anext b =
     (case pending b of
        c # cs \<Rightarrow> (Inr c, b\<lparr>pending := cs\<rparr>)
      | [] \<Rightarrow>
          (case failure b of
             Some e \<Rightarrow> (Inl e, b\<lparr>failure := None\<rparr>)
           | None \<Rightarrow> (Inl StopAsyncIteration, b)))"

text \<open>What running the body of a generator up to its next suspension gives.\<close>

datatype 'a body_outcome = Yields 'a | Raises exn | Returns

datatype agen_state = Created | Suspended | Closed

text \<open>
  The generator object made by \<open>_chat_complete_stream_wrapper(base)\<close>: its own state and
  the stub's generator it iterates, which nothing else refers to once
  \<open>chat_complete_stream\<close> has returned.
\<close>

record TokenStream =
  state :: agen_state
  base :: BaseStream

text \<open>
  The body of \<open>_chat_complete_stream_wrapper\<close>, from its start or from the \<open>yield\<close> to
  the next suspension:
  \<^verbatim>\<open>
    async for chunk in base:
        yield chunk.response.content
    raise StopAsyncIteration
  \<close>
  When \<open>base\<close> is exhausted the loop ends and the last line raises; any other exception of
  \<open>base\<close> leaves the body as it is.
\<close>

definition wrapper_body :: "BaseStream \<Rightarrow> string body_outcome \<times> BaseStream" where
  "wrapper_body b =
     (case base_anext b of
        (Inr chunk, b') \<Rightarrow> (Yields (content (response chunk)), b')
      | (Inl e, b') \<Rightarrow>
          (if e = StopAsyncIteration then (Raises StopAsyncIteration, b')
           else (Raises e, b')))"

text \<open>
  \<open>__anext__\<close> on an asynchronous generator object. A closed generator raises
  \<open>StopAsyncIteration\<close>. Otherwise the body runs: a yielded value is the result, a return
  becomes \<open>StopAsyncIteration\<close>, an exception closes the generator and propagates, except
  that a \<open>StopAsyncIteration\<close> raised by the body itself is replaced by
  \<open>RuntimeError('async generator raised StopAsyncIteration')\<close>.
\<close>

definition agen_anext :: "TokenStream \<Rightarrow> (exn + string) \<times> TokenStream" where
  "agen_anext g =
     (if state g = Closed then (Inl StopAsyncIteration, g)
      else
        (case wrapper_body (base g) of
           (Yields v, b') \<Rightarrow> (Inr v, \<lparr>state = Suspended, base = b'\<rparr>)
         | (Returns, b') \<Rightarrow> (Inl StopAsyncIteration, \<lparr>state = Closed, base = b'\<rparr>)
         | (Raises e, b') \<Rightarrow>
             (if e = StopAsyncIteration
              then (Inl (RuntimeError ''async generator raised StopAsyncIteration''),
                    \<lparr>state = Closed, base = b'\<rparr>)
              else (Inl e, \<lparr>state = Closed, base = b'\<rparr>))))"

text \<open>
  A consumer's \<open>async for token in tokenStream\<close>: the tokens received and how the loop
  ended, \<open>None\<close> for the normal end on \<open>StopAsyncIteration\<close>, \<open>Some e\<close> when \<open>e\<close>
  was raised into the consumer.
\<close>

function iterate :: "TokenStream \<Rightarrow> string list \<times> exn option" where
  "iterate g =
     (case agen_anext g of
        (Inr tok, g') \<Rightarrow> (case iterate g' of (toks, r) \<Rightarrow> (tok # toks, r))
      | (Inl e, g') \<Rightarrow> (if e = StopAsyncIteration then ([], None) else ([], Some e)))"
  by pat_completeness auto
termination
  by (relation "measure (\<lambda>g. length (pending (base g)))")
     (auto simp: agen_anext_def wrapper_body_def base_anext_def
           split: if_splits list.splits option.splits)

section \<open>Collaborators of the client\<close>

text \<open>
  The result of \<open>urllib.parse.urlparse\<close>, as far as the constructor reads it. The
  attribute \<open>port\<close> is a property that raises \<open>ValueError\<close> on a port that is not a
  number in range; \<open>hostname\<close> and \<open>port\<close> are \<open>None\<close> when the URL has none.
\<close>

record ParseResult =
  scheme :: string
  hostname :: "string option"
  url_port :: "exn + int option"
  url_path :: string

text \<open>The keyword arguments of \<open>grpclib.client.Channel\<close> the constructor passes.\<close>

record ChannelArgs =
  host :: "string option"
  port :: "int option"
  path :: string
  ssl :: bool

text \<open>
  The two library functions the constructor calls. Neither is part of the sources, so both
  are parameters: \<open>urlparse\<close> may raise, and so may \<open>Channel\<close> (\<open>Some e\<close>).
\<close>

record libs =
  urlparse :: "string \<Rightarrow> exn + ParseResult"
  Channel :: "ChannelArgs \<Rightarrow> exn option"

type_synonym metadata = "(string \<times> string) list"

text \<open>\<open>APIGatewayServiceStub(channel, metadata=...)\<close>: what the stub is bound to.\<close>

record APIGatewayServiceStub =
  channel :: ChannelArgs
  metadata :: metadata

record Client =
  service :: APIGatewayServiceStub

text \<open>
  A call of a method of the stub with its keyword arguments; \<open>'q\<close> is the enumeration
  \<open>ImageQuality\<close> of the generated module.
\<close>

datatype 'q stub_call =
    ChatComplete string "ChatCompleteMessage list"
  | ChatCompleteStream string "ChatCompleteMessage list"
  | Embed string string
  | TextToImage string string int 'q string
  | Transcribe string string

text \<open>A remote call as it leaves the client: the headers attached and the call.\<close>

record 'q rpc =
  rpc_metadata :: metadata
  rpc_call :: "'q stub_call"

text \<open>
  What the client has done to the outside: the channels it has asked for and the remote
  calls it has issued, oldest first.
\<close>

record 'q world =
  channels :: "ChannelArgs list"
  calls :: "'q rpc list"

text \<open>The response of \<open>text_to_image\<close>, of which the client reads \<open>images\<close>.\<close>

record 'img TextToImageResponse =
  images :: "'img list"

text \<open>The dataclass \<open>ChatCompleteStreamResponse\<close> of the client.\<close>

record ChatCompleteStreamResponse =
  role :: string
  tokenStream :: TokenStream

section \<open>The client\<close>

text \<open>
  \<open>Client.__init__\<close>:
  \<^verbatim>\<open>
    if options.apiKey == "" or options.apiKey is None:
        raise ValueError("apiKey must be specified")
    url = urlparse(options.baseUrl)
    channel = Channel(host=url.hostname, port=url.port, path=url.path,
                      ssl=url.scheme == "https")
    self.service = APIGatewayServiceStub(channel, metadata=[('x-api-key', options.apiKey)])
  \<close>
  The part after the check of the key is \<open>connect\<close>.
\<close>

definition connect ::
  "libs \<Rightarrow> string \<Rightarrow> string \<Rightarrow> 'q world \<Rightarrow> (exn + Client) \<times> 'q world" where
  "connect lib key burl w =
     (case urlparse lib burl of
        Inl e \<Rightarrow> (Inl e, w)
      | Inr url \<Rightarrow>
          (case url_port url of
             Inl e \<Rightarrow> (Inl e, w)
           | Inr p \<Rightarrow>
               (let args = \<lparr>host = hostname url, port = p, path = url_path url,
                            ssl = (scheme url = ''https'')\<rparr>;
                    w' = w\<lparr>channels := channels w @ [args]\<rparr>
                in case Channel lib args of
                     Some e \<Rightarrow> (Inl e, w')
                   | None \<Rightarrow>
                       (Inr \<lparr>service = \<lparr>channel = args,
                                         metadata = [(''x-api-key'', key)]\<rparr>\<rparr>, w'))))"

definition Client_init ::
  "libs \<Rightarrow> ClientOptions \<Rightarrow> 'q world \<Rightarrow> (exn + Client) \<times> 'q world" where
  "Client_init lib options w =
     (case apiKey options of
        None \<Rightarrow> (Inl (ValueError ''apiKey must be specified''), w)
      | Some key \<Rightarrow>
          (if key = '''' then (Inl (ValueError ''apiKey must be specified''), w)
           else connect lib key (baseUrl options) w))"

text \<open>
  Modelled from the spec: the methods of the generated \<open>APIGatewayServiceStub\<close> are not
  part of the sources. By the spec the stub is bound to the channel with the API key as a
  per-call authentication header, so a call of one of its methods issues one remote call
  that carries the metadata the stub was bound with.
\<close>

definition stub_invoke ::
  "APIGatewayServiceStub \<Rightarrow> 'q stub_call \<Rightarrow> 'q world \<Rightarrow> 'q rpc \<times> 'q world" where
  "stub_invoke stub c w =
     (let r = \<lparr>rpc_metadata = metadata stub, rpc_call = c\<rparr>
      in (r, w\<lparr>calls := calls w @ [r]\<rparr>))"

text \<open>
  The five operations. The first argument is the answer of the remote service to the call,
  a response or an exception, which is not the client's to decide.
\<close>

definition chat_complete ::
  "('q rpc \<Rightarrow> exn + 'cr) \<Rightarrow> Client \<Rightarrow> string \<Rightarrow> ChatCompleteMessage list \<Rightarrow> 'q world
     \<Rightarrow> (exn + 'cr) \<times> 'q world" where
  "chat_complete remote self model messages w =
     (case stub_invoke (service self) (ChatComplete model messages) w of
        (r, w') \<Rightarrow> (remote r, w'))"

text \<open>
  \<open>chat_complete_stream\<close>:
  \<^verbatim>\<open>
    raw = self.service.chat_complete_stream(model=model, message=messages)
    first = await raw.__anext__()
    role = first.response.role
    return ChatCompleteStreamResponse(role=role,
                                      tokenStream=_chat_complete_stream_wrapper(raw))
  \<close>
  An exception of \<open>raw.__anext__()\<close> leaves the coroutine unchanged.
\<close>

definition chat_complete_stream ::
  "('q rpc \<Rightarrow> BaseStream) \<Rightarrow> Client \<Rightarrow> string \<Rightarrow> ChatCompleteMessage list \<Rightarrow> 'q world
     \<Rightarrow> (exn + ChatCompleteStreamResponse) \<times> 'q world" where
  "chat_complete_stream remote self model messages w =
     (case stub_invoke (service self) (ChatCompleteStream model messages) w of
        (r, w') \<Rightarrow>
          (case base_anext (remote r) of
             (Inl e, raw) \<Rightarrow> (Inl e, w')
           | (Inr first, raw) \<Rightarrow>
               (Inr \<lparr>role = ChatCompleteMessage.role (response first),
                     tokenStream = \<lparr>state = Created, base = raw\<rparr>\<rparr>, w')))"

definition embed ::
  "('q rpc \<Rightarrow> exn + 'er) \<Rightarrow> Client \<Rightarrow> string \<Rightarrow> string \<Rightarrow> 'q world
     \<Rightarrow> (exn + 'er) \<times> 'q world" where
  "embed remote self model input_string w =
     (case stub_invoke (service self) (Embed model input_string) w of
        (r, w') \<Rightarrow> (remote r, w'))"

definition text_to_image ::
  "('q rpc \<Rightarrow> exn + 'img TextToImageResponse) \<Rightarrow> Client \<Rightarrow> string \<Rightarrow> string \<Rightarrow> int
     \<Rightarrow> 'q \<Rightarrow> string \<Rightarrow> 'q world \<Rightarrow> (exn + 'img list) \<times> 'q world" where
  "text_to_image remote self model prompt count quality size_str w =
     (case stub_invoke (service self) (TextToImage model prompt count quality size_str) w of
        (r, w') \<Rightarrow>
          (case remote r of
             Inl e \<Rightarrow> (Inl e, w')
           | Inr res \<Rightarrow> (Inr (images res), w')))"

definition transcribe ::
  "('q rpc \<Rightarrow> exn + 'tr) \<Rightarrow> Client \<Rightarrow> string \<Rightarrow> string \<Rightarrow> 'q world
     \<Rightarrow> (exn + 'tr) \<times> 'q world" where
  "transcribe remote self model url w =
     (case stub_invoke (service self) (Transcribe model url) w of
        (r, w') \<Rightarrow> (remote r, w'))"

section \<open>Callers and example inputs\<close>

text \<open>
  A caller that awaits \<open>chat_complete_stream\<close> and then runs \<open>async for\<close> over the
  \<open>tokenStream\<close> of the response: the role, the tokens received, and how the loop ended.
\<close>

definition collect ::
  "('q rpc \<Rightarrow> BaseStream) \<Rightarrow> Client \<Rightarrow> string \<Rightarrow> ChatCompleteMessage list \<Rightarrow> 'q world
     \<Rightarrow> exn + string \<times> string list \<times> exn option" where
  "collect remote self model messages w =
     (case chat_complete_stream remote self model messages w of
        (Inl e, w') \<Rightarrow> Inl e
      | (Inr res, w') \<Rightarrow> Inr (role res, iterate (tokenStream res)))"

text \<open>The \<open>content\<close> of each chunk of a list, in order.\<close>

definition tokens_of :: "StreamChunk list \<Rightarrow> string list" where
  "tokens_of cs = map (\<lambda>c. content (response c)) cs"

text \<open>The two chunks of the spec's example.\<close>

definition hi_there :: "StreamChunk list" where
  "hi_there =
     [\<lparr>response = \<lparr>ChatCompleteMessage.role = ''assistant'', content = ''Hi''\<rparr>\<rparr>,
      \<lparr>response = \<lparr>ChatCompleteMessage.role = ''assistant'', content = '' there''\<rparr>\<rparr>]"

text \<open>
  What \<open>urlparse\<close> gives on \<open>DEFAULT_BASE_PATH\<close>: scheme \<open>https\<close>, the host name, no
  port and the empty path.
\<close>

definition default_url :: ParseResult where
  "default_url =
     \<lparr>scheme = ''https'', hostname = Some ''api.function.network'',
      url_port = Inr None, url_path = ''''\<rparr>"

text \<open>
  Libraries for the examples: a \<open>urlparse\<close> that answers every URL as the real one
  answers \<open>DEFAULT_BASE_PATH\<close>, and a \<open>Channel\<close> that never raises.
\<close>

definition test_libs :: libs where
  "test_libs = \<lparr>urlparse = (\<lambda>u. Inr default_url), Channel = (\<lambda>a. None)\<rparr>"

definition test_client :: Client where
  "test_client =
     \<lparr>service = \<lparr>channel = \<lparr>host = Some ''api.function.network'', port = None,
                              path = '''', ssl = True\<rparr>,
                  metadata = [(''x-api-key'', ''secret'')]\<rparr>\<rparr>"

text \<open>The outside before the client has done anything.\<close>

definition fresh :: "unit world" where
  "fresh = \<lparr>channels = [], calls = []\<rparr>"

section \<open>The token stream\<close>

declare iterate.simps [simp del]

lemma agen_anext_chunk:
  "s \<noteq> Closed \<Longrightarrow>
   agen_anext \<lparr>state = s, base = \<lparr>pending = c # cs, failure = f\<rparr>\<rparr> =
     (Inr (content (response c)), \<lparr>state = Suspended, base = \<lparr>pending = cs, failure = f\<rparr>\<rparr>)"
  by (simp add: agen_anext_def wrapper_body_def base_anext_def)

lemma agen_anext_completed:
  "s \<noteq> Closed \<Longrightarrow>
   agen_anext \<lparr>state = s, base = \<lparr>pending = [], failure = None\<rparr>\<rparr> =
     (Inl (RuntimeError ''async generator raised StopAsyncIteration''),
      \<lparr>state = Closed, base = \<lparr>pending = [], failure = None\<rparr>\<rparr>)"
  by (simp add: agen_anext_def wrapper_body_def base_anext_def)

lemma agen_anext_closed:
  "agen_anext \<lparr>state = Closed, base = b\<rparr> = (Inl StopAsyncIteration, \<lparr>state = Closed, base = b\<rparr>)"
  by (simp add: agen_anext_def)

lemma iterate_chunk:
  "s \<noteq> Closed \<Longrightarrow>
   iterate \<lparr>state = s, base = \<lparr>pending = c # cs, failure = f\<rparr>\<rparr> =
     (content (response c)
        # fst (iterate \<lparr>state = Suspended, base = \<lparr>pending = cs, failure = f\<rparr>\<rparr>),
      snd (iterate \<lparr>state = Suspended, base = \<lparr>pending = cs, failure = f\<rparr>\<rparr>))"
  by (subst iterate.simps) (simp add: agen_anext_chunk split: prod.splits)

lemma iterate_completed_Nil:
  "s \<noteq> Closed \<Longrightarrow>
   iterate \<lparr>state = s, base = \<lparr>pending = [], failure = None\<rparr>\<rparr> =
     ([], Some (RuntimeError ''async generator raised StopAsyncIteration''))"
  by (subst iterate.simps) (simp add: agen_anext_completed)

lemma iterate_tokens:
  "s \<noteq> Closed \<Longrightarrow>
   fst (iterate \<lparr>state = s, base = \<lparr>pending = cs, failure = f\<rparr>\<rparr>) = tokens_of cs"
proof (induction cs arbitrary: s)
  case Nil
  then show ?case
    by (subst iterate.simps, cases f)
       (simp_all add: tokens_of_def agen_anext_def wrapper_body_def base_anext_def)
next
  case (Cons c cs)
  have "fst (iterate \<lparr>state = Suspended, base = \<lparr>pending = cs, failure = f\<rparr>\<rparr>) = tokens_of cs"
    by (rule Cons.IH) simp
  then show ?case
    using Cons.prems by (simp add: iterate_chunk tokens_of_def)
qed

lemma iterate_completed:
  "s \<noteq> Closed \<Longrightarrow>
   snd (iterate \<lparr>state = s, base = \<lparr>pending = cs, failure = None\<rparr>\<rparr>) =
     Some (RuntimeError ''async generator raised StopAsyncIteration'')"
proof (induction cs arbitrary: s)
  case Nil
  then show ?case by (simp add: iterate_completed_Nil)
next
  case (Cons c cs)
  have "snd (iterate \<lparr>state = Suspended, base = \<lparr>pending = cs, failure = None\<rparr>\<rparr>) =
     Some (RuntimeError ''async generator raised StopAsyncIteration'')"
    by (rule Cons.IH) simp
  then show ?case
    using Cons.prems by (simp add: iterate_chunk)
qed

lemma chat_complete_stream_first:
  "chat_complete_stream (\<lambda>r. \<lparr>pending = c # cs, failure = f\<rparr>) self model messages w =
     (Inr \<lparr>role = ChatCompleteMessage.role (response c),
           tokenStream = \<lparr>state = Created, base = \<lparr>pending = cs, failure = f\<rparr>\<rparr>\<rparr>,
      w\<lparr>calls := calls w @ [\<lparr>rpc_metadata = metadata (service self),
                               rpc_call = ChatCompleteStream model messages\<rparr>]\<rparr>)"
  by (simp add: chat_complete_stream_def stub_invoke_def base_anext_def Let_def)

text \<open>
  Whatever the stub's stream delivers after its first chunk and then completes, the caller
  receives the contents of those later chunks and then a \<open>RuntimeError\<close>: the
  \<open>StopAsyncIteration\<close> raised on the last line of the wrapper does not end the loop.
\<close>

lemma collect_completed_stream:
  "collect (\<lambda>r. \<lparr>pending = c # cs, failure = None\<rparr>) self model messages w =
     Inr (ChatCompleteMessage.role (response c), tokens_of cs,
          Some (RuntimeError ''async generator raised StopAsyncIteration''))"
proof -
  let ?g = "\<lparr>state = Created, base = \<lparr>pending = cs, failure = None\<rparr>\<rparr>"
  have "fst (iterate ?g) = tokens_of cs"
    by (rule iterate_tokens) simp
  moreover have "snd (iterate ?g) = Some (RuntimeError ''async generator raised StopAsyncIteration'')"
    by (rule iterate_completed) simp
  ultimately have "iterate ?g =
      (tokens_of cs, Some (RuntimeError ''async generator raised StopAsyncIteration''))"
    by (simp add: prod_eq_iff)
  then show ?thesis
    by (simp add: collect_def chat_complete_stream_first)
qed

text \<open>
  C1, as the code has it. For the stream of the two chunks
  \<open>{role: assistant, content: Hi}\<close> and \<open>{role: assistant, content: " there"}\<close>, however
  the stream ends after them, \<open>chat_complete_stream\<close> returns a response whose
  \<open>role\<close> is \<open>assistant\<close> and whose \<open>tokenStream\<close> has not been started; the first
  chunk has been read for the role, and iterating \<open>tokenStream\<close> yields the contents of
  the chunks after the first, which is the one token \<open>" there"\<close>.
\<close>

theorem stream_role_then_later_tokens:
  "fst (chat_complete_stream (\<lambda>r. \<lparr>pending = hi_there, failure = f\<rparr>) self model messages w) =
     Inr \<lparr>role = ''assistant'',
          tokenStream =
            \<lparr>state = Created,
             base = \<lparr>pending = [\<lparr>response = \<lparr>ChatCompleteMessage.role = ''assistant'',
                                               content = '' there''\<rparr>\<rparr>],
                     failure = f\<rparr>\<rparr>\<rparr>
   \<and> fst (iterate
           \<lparr>state = Created,
            base = \<lparr>pending = [\<lparr>response = \<lparr>ChatCompleteMessage.role = ''assistant'',
                                              content = '' there''\<rparr>\<rparr>],
                    failure = f\<rparr>\<rparr>) = ['' there'']"
  by (simp add: hi_there_def chat_complete_stream_first iterate_tokens tokens_of_def)

text \<open>
  C1 as stated fails: a caller that iterates the token stream of the example does not
  receive \<open>["Hi", " there"]\<close> followed by a normal end.
\<close>

theorem stream_hi_there_counterexample:
  "collect (\<lambda>r. \<lparr>pending = hi_there, failure = None\<rparr>) test_client ''m'' [] fresh
     \<noteq> Inr (''assistant'', [''Hi'', '' there''], None)"
  by (simp add: collect_def hi_there_def chat_complete_stream_first iterate_chunk
        iterate_completed_Nil)

text \<open>
  C2, what the code does at the example: the stub's stream delivers its two chunks and
  completes; the caller receives \<open>" there"\<close> and then, where the iteration should end
  normally, \<open>RuntimeError('async generator raised StopAsyncIteration')\<close>.
\<close>

theorem token_stream_ends_in_RuntimeError:
  "collect (\<lambda>r. \<lparr>pending = hi_there, failure = None\<rparr>) test_client ''m'' [] fresh =
     Inr (''assistant'', ['' there''],
          Some (RuntimeError ''async generator raised StopAsyncIteration''))"
  by (simp add: collect_def hi_there_def chat_complete_stream_first iterate_chunk
        iterate_completed_Nil)

text \<open>
  C4. Against a stream that yields no chunk, \<open>chat_complete_stream\<close> fails: it raises
  what reading the first chunk raises, \<open>StopAsyncIteration\<close> when the stream completes
  and the stream's own fault otherwise, and returns no response record.
\<close>

theorem stream_empty_fails:
  "chat_complete_stream (\<lambda>r. \<lparr>pending = [], failure = f\<rparr>) self model messages w =
     (Inl (case f of None \<Rightarrow> StopAsyncIteration | Some e \<Rightarrow> e),
      w\<lparr>calls := calls w @ [\<lparr>rpc_metadata = metadata (service self),
                               rpc_call = ChatCompleteStream model messages\<rparr>]\<rparr>)"
  by (cases f) (simp_all add: chat_complete_stream_def stub_invoke_def base_anext_def Let_def)

section \<open>Construction\<close>

text \<open>
  C3. Whatever the base URL and the libraries, constructing a client from options whose
  \<open>apiKey\<close> is absent or empty raises \<open>ValueError('apiKey must be specified')\<close>: no
  client is returned, and the outside is as it was, so no channel has been asked for and
  no remote call made.
\<close>

theorem init_rejects_missing_key:
  "Client_init lib \<lparr>apiKey = None, baseUrl = u\<rparr> w =
     (Inl (ValueError ''apiKey must be specified''), w)
   \<and> Client_init lib \<lparr>apiKey = Some '''', baseUrl = u\<rparr> w =
     (Inl (ValueError ''apiKey must be specified''), w)"
  by (simp add: Client_init_def)

text \<open>
  C5. When construction succeeds, the base URL was parsed, exactly one channel was asked
  for, it is the one the client's stub is bound to, and its arguments are the components
  of the parsed URL: \<open>ssl\<close> is true if and only if the scheme is \<open>https\<close>, \<open>host\<close>
  is the host name, \<open>port\<close> the port and \<open>path\<close> the path.
\<close>

theorem init_channel_from_url:
  assumes "Client_init lib options w = (Inr c, w')"
  shows "\<exists>url p. urlparse lib (baseUrl options) = Inr url \<and> url_port url = Inr p
           \<and> channels w' = channels w @ [channel (service c)]
           \<and> ssl (channel (service c)) = (scheme url = ''https'')
           \<and> host (channel (service c)) = hostname url
           \<and> port (channel (service c)) = p
           \<and> path (channel (service c)) = url_path url"
  using assms
  by (auto simp: Client_init_def connect_def Let_def
           split: option.splits if_splits sum.splits)

text \<open>
  The example of C5: with \<open>https://api.function.network\<close> parsed as \<open>urlparse\<close> parses
  it, the channel has host \<open>api.function.network\<close>, no port, the empty path and TLS.
\<close>

theorem init_channel_from_url_witness:
  "Client_init test_libs \<lparr>apiKey = Some ''secret'', baseUrl = DEFAULT_BASE_PATH\<rparr> fresh =
     (Inr test_client, fresh\<lparr>channels := [channel (service test_client)]\<rparr>)
   \<and> ssl (channel (service test_client))
   \<and> host (channel (service test_client)) = Some ''api.function.network''
   \<and> port (channel (service test_client)) = None
   \<and> path (channel (service test_client)) = ''''"
proof -
  have h: "Client_init test_libs \<lparr>apiKey = Some ''secret'', baseUrl = DEFAULT_BASE_PATH\<rparr> fresh =
     (Inr test_client, fresh\<lparr>channels := [channel (service test_client)]\<rparr>)"
    by (simp add: Client_init_def connect_def test_libs_def default_url_def test_client_def
          fresh_def Let_def)
  from init_channel_from_url [OF h] show ?thesis
    using h by (simp add: test_libs_def default_url_def)
qed

text \<open>
  C9. Every key other than the empty string passes the check of the key: construction
  goes on with the rest of the constructor, and whenever the base URL parses, the channel
  is asked for with the components of the URL.
\<close>

theorem init_accepts_nonempty_key:
  assumes "k \<noteq> ''''"
  shows "Client_init lib \<lparr>apiKey = Some k, baseUrl = u\<rparr> w = connect lib k u w
       \<and> (\<forall>url p. urlparse lib u = Inr url \<longrightarrow> url_port url = Inr p \<longrightarrow>
            channels (snd (Client_init lib \<lparr>apiKey = Some k, baseUrl = u\<rparr> w)) =
              channels w @ [\<lparr>host = hostname url, port = p, path = url_path url,
                              ssl = (scheme url = ''https'')\<rparr>])"
  using assms
  by (auto simp: Client_init_def connect_def Let_def split: option.splits)

text \<open>A key of two spaces: the client is built and the channel asked for.\<close>

theorem init_accepts_nonempty_key_witness:
  "''  '' \<noteq> ''''
   \<and> fst (Client_init test_libs \<lparr>apiKey = Some ''  '', baseUrl = DEFAULT_BASE_PATH\<rparr> fresh) =
       Inr \<lparr>service = \<lparr>channel = \<lparr>host = Some ''api.function.network'', port = None,
                                    path = '''', ssl = True\<rparr>,
                        metadata = [(''x-api-key'', ''  '')]\<rparr>\<rparr>
   \<and> channels (snd (Client_init test_libs
                      \<lparr>apiKey = Some ''  '', baseUrl = DEFAULT_BASE_PATH\<rparr> fresh)) =
       [\<lparr>host = Some ''api.function.network'', port = None, path = '''', ssl = True\<rparr>]"
proof -
  have k: "''  '' \<noteq> ''''" by simp
  from init_accepts_nonempty_key [OF k, of test_libs DEFAULT_BASE_PATH fresh]
  show ?thesis
    by (simp add: connect_def test_libs_def default_url_def fresh_def Let_def)
qed

section \<open>The operations\<close>

text \<open>
  C6. Each of \<open>chat_complete\<close>, \<open>embed\<close> and \<open>transcribe\<close> returns exactly what the
  stub's method gives for the call, unmodified: the response when there is one (and the
  exception otherwise).
\<close>

theorem unary_calls_pass_through:
  "fst (chat_complete remote1 self model messages w) =
     remote1 \<lparr>rpc_metadata = metadata (service self), rpc_call = ChatComplete model messages\<rparr>
   \<and> fst (embed remote2 self model input_string w) =
     remote2 \<lparr>rpc_metadata = metadata (service self), rpc_call = Embed model input_string\<rparr>
   \<and> fst (transcribe remote3 self model url w) =
     remote3 \<lparr>rpc_metadata = metadata (service self), rpc_call = Transcribe model url\<rparr>"
  by (simp add: chat_complete_def embed_def transcribe_def stub_invoke_def Let_def)

text \<open>
  C7. For every response of the stub to \<open>text_to_image\<close>, the method returns the list
  \<open>images\<close> of that response, the same list in order and length, whatever \<open>count\<close>
  was asked for.
\<close>

theorem text_to_image_returns_images:
  "fst (text_to_image (\<lambda>r. Inr res) self model prompt count quality size_str w) =
     Inr (images res)"
  by (simp add: text_to_image_def stub_invoke_def Let_def)

text \<open>
  C8. For a client constructed with the key \<open>k\<close>, each of the five operations issues
  one remote call, and that call carries the header \<open>x-api-key\<close> with value \<open>k\<close>.
\<close>

theorem every_call_carries_api_key:
  assumes "Client_init lib \<lparr>apiKey = Some k, baseUrl = u\<rparr> w0 = (Inr c, w1)"
  shows "calls (snd (chat_complete remote1 c model messages w)) =
           calls w @ [\<lparr>rpc_metadata = [(''x-api-key'', k)],
                        rpc_call = ChatComplete model messages\<rparr>]
       \<and> calls (snd (chat_complete_stream remote2 c model messages w)) =
           calls w @ [\<lparr>rpc_metadata = [(''x-api-key'', k)],
                        rpc_call = ChatCompleteStream model messages\<rparr>]
       \<and> calls (snd (embed remote3 c model input_string w)) =
           calls w @ [\<lparr>rpc_metadata = [(''x-api-key'', k)],
                        rpc_call = Embed model input_string\<rparr>]
       \<and> calls (snd (text_to_image remote4 c model prompt count quality size_str w)) =
           calls w @ [\<lparr>rpc_metadata = [(''x-api-key'', k)],
                        rpc_call = TextToImage model prompt count quality size_str\<rparr>]
       \<and> calls (snd (transcribe remote5 c model url w)) =
           calls w @ [\<lparr>rpc_metadata = [(''x-api-key'', k)],
                        rpc_call = Transcribe model url\<rparr>]"
proof -
  from assms have m: "metadata (service c) = [(''x-api-key'', k)]"
    by (auto simp: Client_init_def connect_def Let_def
             split: option.splits if_splits sum.splits)
  show ?thesis
    by (simp add: m chat_complete_def chat_complete_stream_def embed_def text_to_image_def
          transcribe_def stub_invoke_def Let_def split: prod.splits sum.splits)
qed

text \<open>The client of the examples, built with the key \<open>secret\<close>, and one call of each operation.\<close>

theorem every_call_carries_api_key_witness:
  "Client_init test_libs \<lparr>apiKey = Some ''secret'', baseUrl = DEFAULT_BASE_PATH\<rparr> fresh =
     (Inr test_client, fresh\<lparr>channels := [channel (service test_client)]\<rparr>)
   \<and> calls (snd (chat_complete (\<lambda>r. Inr ()) test_client ''m'' [] fresh)) =
       [\<lparr>rpc_metadata = [(''x-api-key'', ''secret'')], rpc_call = ChatComplete ''m'' []\<rparr>]
   \<and> calls (snd (chat_complete_stream (\<lambda>r. \<lparr>pending = hi_there, failure = None\<rparr>)
                   test_client ''m'' [] fresh)) =
       [\<lparr>rpc_metadata = [(''x-api-key'', ''secret'')], rpc_call = ChatCompleteStream ''m'' []\<rparr>]
   \<and> calls (snd (embed (\<lambda>r. Inr ()) test_client ''m'' ''text'' fresh)) =
       [\<lparr>rpc_metadata = [(''x-api-key'', ''secret'')], rpc_call = Embed ''m'' ''text''\<rparr>]
   \<and> calls (snd (text_to_image (\<lambda>r. Inr \<lparr>images = [()]\<rparr>) test_client ''m'' ''a cat'' 1 ()
                   ''512x512'' fresh)) =
       [\<lparr>rpc_metadata = [(''x-api-key'', ''secret'')],
         rpc_call = TextToImage ''m'' ''a cat'' 1 () ''512x512''\<rparr>]
   \<and> calls (snd (transcribe (\<lambda>r. Inr ()) test_client ''m'' ''https://example.org/a.mp3'' fresh)) =
       [\<lparr>rpc_metadata = [(''x-api-key'', ''secret'')],
         rpc_call = Transcribe ''m'' ''https://example.org/a.mp3''\<rparr>]"
proof -
  have h: "Client_init test_libs \<lparr>apiKey = Some ''secret'', baseUrl = DEFAULT_BASE_PATH\<rparr> fresh =
     (Inr test_client, fresh\<lparr>channels := [channel (service test_client)]\<rparr>)"
    by (simp add: Client_init_def connect_def test_libs_def default_url_def test_client_def
          fresh_def Let_def)
  from every_call_carries_api_key [OF h, of "\<lambda>r. Inr ()" "''m''" "[]" fresh
      "\<lambda>r. \<lparr>pending = hi_there, failure = None\<rparr>" "\<lambda>r. Inr ()" "''text''"
      "\<lambda>r. Inr \<lparr>images = [()]\<rparr>" "''a cat''" 1 "()" "''512x512''"
      "\<lambda>r. Inr ()" "''https://example.org/a.mp3''"]
  show ?thesis
    using h by (simp add: fresh_def)
qed

text \<open>
  C10. \<open>text_to_image\<close> issues its call with exactly the model, prompt, count, quality
  and size it was given, for every integer count and every size string, and hands back
  what the stub answers to that call (its \<open>images\<close>, or its exception).
\<close>

theorem text_to_image_forwards_arguments:
  "snd (text_to_image remote self model prompt count quality size_str w) =
     w\<lparr>calls := calls w @ [\<lparr>rpc_metadata = metadata (service self),
                              rpc_call = TextToImage model prompt count quality size_str\<rparr>]\<rparr>
   \<and> fst (text_to_image remote self model prompt count quality size_str w) =
     map_sum id images
       (remote \<lparr>rpc_metadata = metadata (service self),
                rpc_call = TextToImage model prompt count quality size_str\<rparr>)"
  by (simp add: text_to_image_def stub_invoke_def Let_def split: sum.splits)

end
